theory Spec2Isabelle
  imports Main "HOL-Library.Word"
begin

unbundle bit_operations_syntax

section \<open>The configuration blob\<close>

text \<open>
  \<^verbatim>\<open>plat/arm/common/arm_dyn_cfg_helpers.c\<close> reads and writes the trusted-boot
  firmware configuration (TB_FW_CONFIG), a flattened device tree, through four
  functions of the device-tree library that are declared in \<^verbatim>\<open>libfdt.h\<close> and
  \<^verbatim>\<open>common/fdt_wrappers.h\<close> and defined elsewhere:
  \<^verbatim>\<open>fdt_check_header\<close>, \<^verbatim>\<open>fdt_node_offset_by_compatible\<close>, \<^verbatim>\<open>fdtw_read_cells\<close>
  and \<^verbatim>\<open>fdtw_write_inplace_cells\<close>.

  Modelled from the spec: the blob, whose binary format belongs to that library
  and is not in this file. It is modelled at the level section 3 of the
  specification gives it: a structural header (magic value, declared total
  size, offsets of the structure and string tables) and the nodes of the tree in
  the order of the structure block, each with its compatibility strings and its
  scalar properties, a scalar property being a named array of 32-bit cells. A
  node handle is the position of the node in that order, a C \<^verbatim>\<open>int\<close>; negative
  values are the library's errors.
\<close>

type_synonym cell = "32 word"

record fdt_header =
  magic :: "32 word"
  totalsize :: "32 word"
  off_dt_struct :: "32 word"
  off_dt_strings :: "32 word"

record fdt_node =
  compatible :: "string list"
  props :: "(string \<times> cell list) list"

record blob =
  header :: fdt_header
  nodes :: "fdt_node list"

text \<open>
  Modelled from the spec: the magic value of the header. The specification does
  not give the number; the model takes the one of the flattened device-tree
  format, and no statement below depends on it.
\<close>

definition FDT_MAGIC :: "32 word" where
  "FDT_MAGIC = 0xd00dfeed"

text \<open>The two property names the file defines (lines 15 and 16).\<close>

definition DTB_PROP_MBEDTLS_HEAP_ADDR :: string where
  "DTB_PROP_MBEDTLS_HEAP_ADDR = ''mbedtls_heap_addr''"

definition DTB_PROP_MBEDTLS_HEAP_SIZE :: string where
  "DTB_PROP_MBEDTLS_HEAP_SIZE = ''mbedtls_heap_size''"

subsection \<open>Properties of a node\<close>

text \<open>
  Modelled from the spec: the lookup of a scalar property. The cells of
  property \<open>name\<close> of the node with handle \<open>node\<close>, \<open>None\<close> when the handle
  names no node of the blob or the node has no such property.
\<close>

definition node_prop :: "blob \<Rightarrow> int \<Rightarrow> string \<Rightarrow> cell list option" where
  "node_prop dtb node name =
     (if 0 \<le> node \<and> nat node < length (nodes dtb)
      then map_of (props (nodes dtb ! nat node)) name
      else None)"

text \<open>
  Modelled from the spec: the overwrite of a property in place. The cells of
  the first property called \<open>name\<close> are replaced; a list without such a
  property is returned as it is, nothing is appended.
\<close>

fun setprop_inplace :: "string \<Rightarrow> cell list \<Rightarrow> (string \<times> cell list) list
    \<Rightarrow> (string \<times> cell list) list" where
  "setprop_inplace name new [] = []"
| "setprop_inplace name new ((k, v) # ps) =
     (if k = name then (k, new) # ps else (k, v) # setprop_inplace name new ps)"

text \<open>
  Modelled from the spec: the same overwrite in the node with handle \<open>node\<close>;
  a handle that names no node leaves the blob as it is.
\<close>

definition node_setprop :: "blob \<Rightarrow> int \<Rightarrow> string \<Rightarrow> cell list \<Rightarrow> blob" where
  "node_setprop dtb node name new =
     (if 0 \<le> node \<and> nat node < length (nodes dtb)
      then dtb\<lparr>nodes := (nodes dtb)[nat node :=
        (nodes dtb ! nat node)\<lparr>props := setprop_inplace name new (props (nodes dtb ! nat node))\<rparr>]\<rparr>
      else dtb)"

subsection \<open>Scalars and cells\<close>

text \<open>
  Modelled from the spec: the encoding of a scalar (section 6). A scalar of \<open>n\<close>
  cells is stored most-significant cell first, each cell a big-endian 32-bit
  unit: one cell carries 32 bits, two cells carry 64.
\<close>

definition cells_of_value :: "nat \<Rightarrow> 'a::len word \<Rightarrow> cell list" where
  "cells_of_value n v = map (\<lambda>i. ucast (drop_bit (32 * (n - 1 - i)) v)) [0..<n]"

text \<open>Modelled from the spec: the decoding of the same cells, most significant first.\<close>

definition value_of_cells :: "cell list \<Rightarrow> 'a::len word" where
  "value_of_cells cs = foldl (\<lambda>acc c. push_bit 32 acc OR ucast c) 0 cs"

text \<open>
  Modelled from the spec: how the cells read reach the caller's object, which
  the library receives as a \<^verbatim>\<open>void *\<close>. A cell is 32 bits, so \<open>n\<close> cells are
  stored as a scalar of \<open>32 n\<close> bits: they replace the low \<open>32 n\<close> bits of the
  object (the firmware is little-endian, these are the bytes the pointer names)
  and whatever a wider object holds above them stays as it was.
\<close>

definition store_cells :: "cell list \<Rightarrow> 'a::len word \<Rightarrow> 'a word" where
  "store_cells cs val =
     push_bit (32 * length cs) (drop_bit (32 * length cs) val) OR value_of_cells cs"

section \<open>The device-tree library, as the specification describes it\<close>

text \<open>
  Modelled from the spec: \<^verbatim>\<open>fdt_check_header\<close> (libfdt, not in this file), the
  collaborator \<^verbatim>\<open>check_header(blob) -> bool\<close> of section 6. The specification says
  that the header carries a magic value, a declared total size and the offsets
  of the structure and string tables, and that a blob with a bad magic is not a
  configuration tree. The result is 0 for a header that validates and negative
  otherwise; the source only tests it against 0.
\<close>

definition fdt_check_header :: "blob \<Rightarrow> int" where
  "fdt_check_header dtb =
     (if magic (header dtb) = FDT_MAGIC
         \<and> off_dt_struct (header dtb) < totalsize (header dtb)
         \<and> off_dt_strings (header dtb) < totalsize (header dtb)
      then 0 else -1)"

text \<open>
  Modelled from the spec: \<^verbatim>\<open>fdt_node_offset_by_compatible\<close> (libfdt, not in this
  file), the collaborator \<^verbatim>\<open>find_node_by_compatible(blob, tag) -> NodeHandle | NotFound\<close>
  of section 6: the handle of the first node after \<open>startoffset\<close> that carries the
  compatibility identifier, or a negative value when there is none. The source
  always passes \<open>-1\<close> as \<open>startoffset\<close>, which searches the whole tree.
  \<open>node_offset_from\<close> walks the nodes, \<open>off\<close> being the handle of the first
  node of the list.
\<close>

fun node_offset_from :: "int \<Rightarrow> int \<Rightarrow> string \<Rightarrow> fdt_node list \<Rightarrow> int" where
  "node_offset_from off startoffset tag [] = -1"
| "node_offset_from off startoffset tag (n # ns) =
     (if startoffset < off \<and> tag \<in> set (compatible n) then off
      else node_offset_from (off + 1) startoffset tag ns)"

text \<open>
  Modelled from the spec: the search itself, from the first node of the
  structure block on.
\<close>

definition fdt_node_offset_by_compatible :: "blob \<Rightarrow> int \<Rightarrow> string \<Rightarrow> int" where
  "fdt_node_offset_by_compatible dtb startoffset tag =
     node_offset_from 0 startoffset tag (nodes dtb)"

text \<open>
  Modelled from the spec: \<^verbatim>\<open>fdtw_read_cells\<close> (\<^verbatim>\<open>common/fdt_wrappers.c\<close>, not in
  this file), the collaborator \<^verbatim>\<open>read_cells(blob, node, name, cell_count) -> value | error\<close>
  of section 6. It fails when the property is missing or does not have the
  required cell count; the specification names the missing and the short
  property and fixes the cell count of every property (section 3), so a
  property of any other width is not the scalar asked for. The last argument is
  the content of the caller's object before the call, the second component of
  the result its content after it: on success the cells read are stored into
  it, on failure it is the old content.
\<close>

definition fdtw_read_cells :: "blob \<Rightarrow> int \<Rightarrow> string \<Rightarrow> nat \<Rightarrow> 'a::len word
    \<Rightarrow> int \<times> 'a word" where
  "fdtw_read_cells dtb node prop cells val =
     (case node_prop dtb node prop of
        None \<Rightarrow> (-1, val)
      | Some cs \<Rightarrow> if length cs \<noteq> cells then (-1, val) else (0, store_cells cs val))"

text \<open>
  Modelled from the spec: \<^verbatim>\<open>fdtw_write_inplace_cells\<close> (\<^verbatim>\<open>common/fdt_wrappers.c\<close>,
  not in this file), the collaborator
  \<^verbatim>\<open>write_cells_in_place(blob, node, name, cell_count, value) -> ok | error\<close> of
  section 6. It overwrites the cells of a property that the blob already
  reserves with the required cell count and fails, writing nothing, when the
  slot is absent or of another width; it never adds a property and never
  changes the size of the blob. The result is the status and the blob after the
  call. The cells written are the low \<open>32 n\<close> bits of the caller's object, so
  one cell of a 64-bit object carries its low half only, and the status is 0
  all the same. The library also rewrites the caller's copy of the value (byte
  order); the callers in this file pass their own by-value parameters and do
  not read them again, so that effect is not part of the result.
\<close>

definition fdtw_write_inplace_cells :: "blob \<Rightarrow> int \<Rightarrow> string \<Rightarrow> nat \<Rightarrow> 'a::len word
    \<Rightarrow> int \<times> blob" where
  "fdtw_write_inplace_cells dtb node prop cells val =
     (case node_prop dtb node prop of
        None \<Rightarrow> (-1, dtb)
      | Some cs \<Rightarrow> if length cs \<noteq> cells then (-1, dtb)
                  else (0, node_setprop dtb node prop (cells_of_value cells val)))"

section \<open>The functions of \<^verbatim>\<open>arm_dyn_cfg_helpers.c\<close>\<close>

text \<open>
  Every function returns its C status (0 or \<open>-1\<close>), the content of the objects
  behind its output pointers after the call (their content before the call is
  an argument), the blob after the call where the function writes to it, and
  the calls it made to the device-tree library, in order. \<^verbatim>\<open>WARN\<close>, \<^verbatim>\<open>ERROR\<close>
  and \<^verbatim>\<open>VERBOSE\<close> only print and are left out. The pointers are taken to be
  valid, so the assertions that they are not \<^verbatim>\<open>NULL\<close> hold by typing.

  The build modelled is the 64-bit one: \<^verbatim>\<open>void *\<close> and \<^verbatim>\<open>size_t\<close> are 64-bit
  objects, \<^verbatim>\<open>uint32_t\<close> is a 32-bit object. The source moves the address as two
  cells, which fill its object, and the size as one cell, which is the low
  half of its object.
\<close>

datatype lib_call =
    Fdt_check_header
  | Fdt_node_offset_by_compatible int string
  | Fdtw_read_cells int string nat
  | Fdtw_write_inplace_cells int string nat

text \<open>
  \<^verbatim>\<open>assert\<close> comes from \<^verbatim>\<open>assert.h\<close>: with assertions enabled (debug builds) a
  false condition stops the firmware, with assertions disabled the condition
  is not evaluated. \<open>Panic\<close> is the first outcome.
\<close>

datatype 'a outcome = Panic | Return 'a

subsection \<open>\<^verbatim>\<open>arm_dyn_tb_fw_cfg_init\<close> (lines 72 to 92)\<close>

definition arm_dyn_tb_fw_cfg_init :: "blob \<Rightarrow> int \<Rightarrow> int \<times> int \<times> lib_call list" where
  "arm_dyn_tb_fw_cfg_init dtb node =
     (if fdt_check_header dtb \<noteq> 0 then (-1, node, [Fdt_check_header])
      else
        let node' = fdt_node_offset_by_compatible dtb (-1) ''arm,tb_fw'' in
        if node' < 0
        then (-1, node', [Fdt_check_header, Fdt_node_offset_by_compatible (-1) ''arm,tb_fw''])
        else (0, node', [Fdt_check_header, Fdt_node_offset_by_compatible (-1) ''arm,tb_fw'']))"

subsection \<open>\<^verbatim>\<open>arm_dyn_get_disable_auth\<close> (lines 32 to 61)\<close>

text \<open>
  \<open>assertions\<close> tells whether the build enables \<^verbatim>\<open>assert\<close>. The two library
  calls inside the assertions are made only then.
\<close>

definition arm_dyn_get_disable_auth :: "bool \<Rightarrow> blob \<Rightarrow> int \<Rightarrow> 32 word
    \<Rightarrow> (int \<times> 32 word \<times> lib_call list) outcome" where
  "arm_dyn_get_disable_auth assertions dtb node disable_auth =
     (if assertions \<and> \<not> (fdt_check_header dtb = 0) then Panic
      else if assertions \<and> \<not> (node = fdt_node_offset_by_compatible dtb (-1) ''arm,tb_fw'')
      then Panic
      else
        let asserted = (if assertions
               then [Fdt_check_header, Fdt_node_offset_by_compatible (-1) ''arm,tb_fw'']
               else []);
            (err, disable_auth') = fdtw_read_cells dtb node ''disable_auth'' 1 disable_auth;
            called = asserted @ [Fdtw_read_cells node ''disable_auth'' 1]
        in
        if err < 0 then Return (-1, disable_auth', called)
        else if disable_auth' \<noteq> 0 \<and> disable_auth' \<noteq> 1
        then Return (-1, disable_auth', called)
        else Return (0, disable_auth', called))"

subsection \<open>\<^verbatim>\<open>arm_get_dtb_mbedtls_heap_info\<close> (lines 104 to 132)\<close>

text \<open>
  The local \<^verbatim>\<open>dtb_root\<close> is declared without a value; \<open>dtb_root\<close> is the
  indeterminate content it starts with.
\<close>

definition arm_get_dtb_mbedtls_heap_info :: "blob \<Rightarrow> 64 word \<Rightarrow> 64 word \<Rightarrow> int
    \<Rightarrow> int \<times> 64 word \<times> 64 word \<times> lib_call list" where
  "arm_get_dtb_mbedtls_heap_info dtb heap_addr heap_size dtb_root =
     (let (err, dtb_root, called) = arm_dyn_tb_fw_cfg_init dtb dtb_root in
      if err < 0 then (-1, heap_addr, heap_size, called)
      else
        let (err, heap_addr) = fdtw_read_cells dtb dtb_root DTB_PROP_MBEDTLS_HEAP_ADDR 2 heap_addr;
            called = called @ [Fdtw_read_cells dtb_root DTB_PROP_MBEDTLS_HEAP_ADDR 2]
        in
        if err < 0 then (-1, heap_addr, heap_size, called)
        else
          let (err, heap_size) = fdtw_read_cells dtb dtb_root DTB_PROP_MBEDTLS_HEAP_SIZE 1 heap_size;
              called = called @ [Fdtw_read_cells dtb_root DTB_PROP_MBEDTLS_HEAP_SIZE 1]
          in
          if err < 0 then (-1, heap_addr, heap_size, called)
          else (0, heap_addr, heap_size, called))"

subsection \<open>\<^verbatim>\<open>arm_set_dtb_mbedtls_heap_info\<close> (lines 148 to 186)\<close>

text \<open>
  The comment above the function gives 1 as its error value; every error path
  of the code returns \<open>-1\<close>, and the model follows the code. The two writes
  are made one after the other with a return between them and nothing that
  undoes the first.
\<close>

definition arm_set_dtb_mbedtls_heap_info :: "blob \<Rightarrow> 64 word \<Rightarrow> 64 word \<Rightarrow> int
    \<Rightarrow> int \<times> blob \<times> lib_call list" where
  "arm_set_dtb_mbedtls_heap_info dtb heap_addr heap_size dtb_root =
     (let (err, dtb_root, called) = arm_dyn_tb_fw_cfg_init dtb dtb_root in
      if err < 0 then (-1, dtb, called)
      else
        let (err, dtb) = fdtw_write_inplace_cells dtb dtb_root DTB_PROP_MBEDTLS_HEAP_ADDR 2 heap_addr;
            called = called @ [Fdtw_write_inplace_cells dtb_root DTB_PROP_MBEDTLS_HEAP_ADDR 2]
        in
        if err < 0 then (-1, dtb, called)
        else
          let (err, dtb) = fdtw_write_inplace_cells dtb dtb_root DTB_PROP_MBEDTLS_HEAP_SIZE 1 heap_size;
              called = called @ [Fdtw_write_inplace_cells dtb_root DTB_PROP_MBEDTLS_HEAP_SIZE 1]
          in
          if err < 0 then (-1, dtb, called)
          else (0, dtb, called))"

section \<open>What the claims speak about\<close>

text \<open>The handle of the \<^verbatim>\<open>"arm,tb_fw"\<close> node, as every function of the file computes it.\<close>

abbreviation (input) tb_fw_node :: "blob \<Rightarrow> int" where
  "tb_fw_node dtb \<equiv> fdt_node_offset_by_compatible dtb (-1) ''arm,tb_fw''"

text \<open>
  The layout of a blob: its header (with the declared total size), and for
  every node, in order, its compatibility strings and the name and cell count
  of each of its properties. Two blobs of the same layout differ at most in
  the values of cells.
\<close>

definition node_layout :: "fdt_node \<Rightarrow> string list \<times> (string \<times> nat) list" where
  "node_layout n = (compatible n, map (\<lambda>(k, v). (k, length v)) (props n))"

definition blob_layout :: "blob \<Rightarrow> fdt_header \<times> (string list \<times> (string \<times> nat) list) list" where
  "blob_layout dtb = (header dtb, map node_layout (nodes dtb))"

text \<open>A property slot of exactly \<open>cells\<close> cells is reserved in the node.\<close>

definition has_slot :: "blob \<Rightarrow> int \<Rightarrow> string \<Rightarrow> nat \<Rightarrow> bool" where
  "has_slot dtb node name cells =
     (case node_prop dtb node name of None \<Rightarrow> False | Some cs \<Rightarrow> length cs = cells)"

text \<open>The property is missing from the node, or has fewer than \<open>cells\<close> cells.\<close>

definition missing_or_short :: "blob \<Rightarrow> int \<Rightarrow> string \<Rightarrow> nat \<Rightarrow> bool" where
  "missing_or_short dtb node name cells =
     (case node_prop dtb node name of None \<Rightarrow> True | Some cs \<Rightarrow> length cs < cells)"

subsection \<open>Example blobs\<close>

text \<open>
  A root node followed by a configuration node tagged \<^verbatim>\<open>"arm,tb_fw"\<close> that
  carries the given properties, under a header that validates.
\<close>

definition example_header :: fdt_header where
  "example_header = \<lparr>magic = 0xd00dfeed, totalsize = 0x200, off_dt_struct = 0x38,
     off_dt_strings = 0x180\<rparr>"

definition example_blob :: "(string \<times> cell list) list \<Rightarrow> blob" where
  "example_blob ps = \<lparr>header = example_header,
     nodes = [\<lparr>compatible = [], props = []\<rparr>, \<lparr>compatible = [''arm,tb_fw''], props = ps\<rparr>]\<rparr>"

text \<open>
  A complete configuration: \<^verbatim>\<open>disable_auth\<close> is 1 and both heap slots are
  reserved, holding zeros.
\<close>

definition tb_fw_config :: blob where
  "tb_fw_config = example_blob
     [(''disable_auth'', [1]), (''mbedtls_heap_addr'', [0, 0]), (''mbedtls_heap_size'', [0])]"

text \<open>The same blob behind a header whose magic is wrong.\<close>

definition bad_magic_blob :: blob where
  "bad_magic_blob = tb_fw_config\<lparr>header := example_header\<lparr>magic := 0\<rparr>\<rparr>"

text \<open>A valid tree that has no \<^verbatim>\<open>"arm,tb_fw"\<close> node.\<close>

definition no_node_blob :: blob where
  "no_node_blob = \<lparr>header = example_header, nodes = [\<lparr>compatible = [], props = []\<rparr>]\<rparr>"

text \<open>A configuration whose \<^verbatim>\<open>disable_auth\<close> cell holds 5.\<close>

definition auth_five_blob :: blob where
  "auth_five_blob = example_blob
     [(''disable_auth'', [5]), (''mbedtls_heap_addr'', [0, 0]), (''mbedtls_heap_size'', [0])]"

text \<open>A configuration that reserves the address of the heap and not its size.\<close>

definition no_size_blob :: blob where
  "no_size_blob = example_blob [(''disable_auth'', [0]), (''mbedtls_heap_addr'', [0, 0])]"

text \<open>A configuration that reserves the size of the heap and not its address.\<close>

definition no_addr_blob :: blob where
  "no_addr_blob = example_blob [(''disable_auth'', [0]), (''mbedtls_heap_size'', [0])]"

section \<open>Properties of the blob operations\<close>

lemma map_of_setprop_inplace:
  "map_of (setprop_inplace name new ps) k =
     (if k = name \<and> map_of ps name \<noteq> None then Some new else map_of ps k)"
  by (induction name new ps rule: setprop_inplace.induct) auto

lemma layout_setprop_inplace:
  "map_of ps name = Some cs \<Longrightarrow> length new = length cs \<Longrightarrow>
   map (\<lambda>(k, v). (k, length v)) (setprop_inplace name new ps) = map (\<lambda>(k, v). (k, length v)) ps"
  by (induction name new ps rule: setprop_inplace.induct) (auto split: if_splits)

lemma node_setprop_invalid:
  "\<not> (0 \<le> node \<and> nat node < length (nodes dtb)) \<Longrightarrow> node_setprop dtb node name new = dtb"
  unfolding node_setprop_def by (rule if_not_P)

lemma node_prop_invalid:
  "\<not> (0 \<le> node \<and> nat node < length (nodes dtb)) \<Longrightarrow> node_prop dtb node name = None"
  unfolding node_prop_def by (rule if_not_P)

lemma node_setprop_valid:
  "0 \<le> node \<Longrightarrow> nat node < length (nodes dtb) \<Longrightarrow>
   nodes (node_setprop dtb node name new) = (nodes dtb)[nat node :=
        (nodes dtb ! nat node)\<lparr>props := setprop_inplace name new (props (nodes dtb ! nat node))\<rparr>]"
  by (simp add: node_setprop_def)

lemma node_prop_valid:
  "0 \<le> node \<Longrightarrow> nat node < length (nodes dtb) \<Longrightarrow>
   node_prop dtb node name = map_of (props (nodes dtb ! nat node)) name"
  by (simp add: node_prop_def)

lemma header_node_setprop: "header (node_setprop dtb node name new) = header dtb"
  by (simp add: node_setprop_def)

text \<open>A write changes the property it names, when the node has it, and no other.\<close>

lemma node_prop_setprop:
  "node_prop (node_setprop dtb node name new) m k =
     (if m = node \<and> k = name \<and> node_prop dtb node name \<noteq> None then Some new
      else node_prop dtb m k)"
proof (cases "0 \<le> node \<and> nat node < length (nodes dtb)")
  case False
  then show ?thesis by (simp add: node_setprop_invalid node_prop_invalid)
next
  case inr: True
  show ?thesis
  proof (cases "0 \<le> m \<and> nat m < length (nodes dtb)")
    case False
    then have "node_prop dtb m k = None" "node_prop (node_setprop dtb node name new) m k = None"
      by (simp_all add: node_prop_invalid node_setprop_def)
    moreover from False inr have "m \<noteq> node" by auto
    ultimately show ?thesis by simp
  next
    case inm: True
    show ?thesis
    proof (cases "m = node")
      case True
      with inr show ?thesis
        by (simp add: node_prop_valid node_setprop_valid map_of_setprop_inplace)
    next
      case False
      with inr inm have "nat node \<noteq> nat m" by linarith
      with False inr inm show ?thesis
        by (simp add: node_prop_valid node_setprop_valid)
    qed
  qed
qed




text \<open>Overwriting a slot with as many cells as it has keeps the layout.\<close>

lemma layout_node_setprop:
  assumes "node_prop dtb node name = Some cs" "length new = length cs"
  shows "blob_layout (node_setprop dtb node name new) = blob_layout dtb"
proof -
  from assms(1) have inr: "0 \<le> node" "nat node < length (nodes dtb)"
    and m: "map_of (props (nodes dtb ! nat node)) name = Some cs"
    by (auto simp: node_prop_def split: if_splits)
  have "node_layout ((nodes dtb ! nat node)\<lparr>props := setprop_inplace name new (props (nodes dtb ! nat node))\<rparr>)
        = node_layout (nodes dtb ! nat node)"
    using m assms(2) by (simp add: node_layout_def layout_setprop_inplace)
  then have "map node_layout (nodes (node_setprop dtb node name new)) = map node_layout (nodes dtb)"
    using inr by (simp add: node_setprop_valid map_update list_update_same_conv)
  then show ?thesis by (simp add: blob_layout_def header_node_setprop)
qed

subsection \<open>Cells\<close>

lemma length_cells_of_value: "length (cells_of_value n v) = n"
  by (simp add: cells_of_value_def)

lemma cells_of_value_two: "cells_of_value 2 v = [ucast (drop_bit 32 v), ucast v]"
  by (simp add: cells_of_value_def upt_rec)

lemma cells_of_value_one: "cells_of_value (Suc 0) v = [ucast v]"
  by (simp add: cells_of_value_def)


text \<open>
  One cell fills a \<^verbatim>\<open>uint32_t\<close>, two cells fill a 64-bit object, and one cell
  replaces the low half of a 64-bit object and keeps its upper half.
\<close>

lemma store_cells_uint32: "store_cells [c] (d :: 32 word) = c"
  by (simp add: store_cells_def value_of_cells_def)

lemma store_cells_uint64: "store_cells [hi, lo] (d :: 64 word) = value_of_cells [hi, lo]"
  by (simp add: store_cells_def value_of_cells_def)

lemma store_cells_low_half:
  "store_cells [c] (d :: 64 word) = push_bit 32 (drop_bit 32 d) OR ucast c"
  by (simp add: store_cells_def value_of_cells_def)






subsection \<open>The library calls\<close>

lemma write_result:
  "fdtw_write_inplace_cells dtb node prop n v =
     (if has_slot dtb node prop n then (0, node_setprop dtb node prop (cells_of_value n v))
      else (-1, dtb))"
  by (simp add: fdtw_write_inplace_cells_def has_slot_def split: option.splits)

lemma read_result:
  "fdtw_read_cells dtb node prop n d =
     (if has_slot dtb node prop n then (0, store_cells (the (node_prop dtb node prop)) d)
      else (-1, d))"
  by (simp add: fdtw_read_cells_def has_slot_def split: option.splits)

lemma read_one:
  "node_prop dtb node name = Some [v] \<Longrightarrow>
   fdtw_read_cells dtb node name 1 (d :: 32 word) = (0, v)"
  by (simp add: fdtw_read_cells_def store_cells_uint32)

lemma has_slot_setprop:
  "has_slot (node_setprop dtb node name new) m k n =
     (if m = node \<and> k = name \<and> node_prop dtb node name \<noteq> None then length new = n
      else has_slot dtb m k n)"
  by (auto simp: has_slot_def node_prop_setprop)

lemma has_slot_not_missing: "has_slot dtb node name n \<Longrightarrow> \<not> missing_or_short dtb node name n"
  by (simp add: has_slot_def missing_or_short_def split: option.splits)

lemma has_slot_Some: "has_slot dtb node name n \<Longrightarrow> node_prop dtb node name \<noteq> None"
  by (simp add: has_slot_def split: option.splits)

lemma absent_no_slot: "node_prop dtb node name = None \<Longrightarrow> \<not> has_slot dtb node name n"
  by (simp add: has_slot_def)

lemma prop_names_differ: "DTB_PROP_MBEDTLS_HEAP_SIZE \<noteq> DTB_PROP_MBEDTLS_HEAP_ADDR"
  by (simp add: DTB_PROP_MBEDTLS_HEAP_ADDR_def DTB_PROP_MBEDTLS_HEAP_SIZE_def)

section \<open>The four functions, path by path\<close>

lemma init_cases:
  "arm_dyn_tb_fw_cfg_init dtb n =
    (if fdt_check_header dtb \<noteq> 0 then (-1, n, [Fdt_check_header])
     else (if tb_fw_node dtb < 0 then -1 else 0, tb_fw_node dtb,
           [Fdt_check_header, Fdt_node_offset_by_compatible (-1) ''arm,tb_fw'']))"
  by (simp add: arm_dyn_tb_fw_cfg_init_def Let_def)

lemma init_ok:
  "arm_dyn_tb_fw_cfg_init dtb n0 = (0, node, tr) \<Longrightarrow>
   fdt_check_header dtb = 0 \<and> node = tb_fw_node dtb \<and> 0 \<le> node"
  by (auto simp: init_cases split: if_splits)

lemma set_result:
  "arm_set_dtb_mbedtls_heap_info dtb heap_addr heap_size r =
    (if fdt_check_header dtb \<noteq> 0 then (-1, dtb, [Fdt_check_header])
     else if tb_fw_node dtb < 0
     then (-1, dtb, [Fdt_check_header, Fdt_node_offset_by_compatible (-1) ''arm,tb_fw''])
     else if \<not> has_slot dtb (tb_fw_node dtb) DTB_PROP_MBEDTLS_HEAP_ADDR 2
     then (-1, dtb, [Fdt_check_header, Fdt_node_offset_by_compatible (-1) ''arm,tb_fw'',
             Fdtw_write_inplace_cells (tb_fw_node dtb) DTB_PROP_MBEDTLS_HEAP_ADDR 2])
     else if \<not> has_slot dtb (tb_fw_node dtb) DTB_PROP_MBEDTLS_HEAP_SIZE 1
     then (-1, node_setprop dtb (tb_fw_node dtb) DTB_PROP_MBEDTLS_HEAP_ADDR (cells_of_value 2 heap_addr),
            [Fdt_check_header, Fdt_node_offset_by_compatible (-1) ''arm,tb_fw'',
             Fdtw_write_inplace_cells (tb_fw_node dtb) DTB_PROP_MBEDTLS_HEAP_ADDR 2,
             Fdtw_write_inplace_cells (tb_fw_node dtb) DTB_PROP_MBEDTLS_HEAP_SIZE 1])
     else (0, node_setprop
               (node_setprop dtb (tb_fw_node dtb) DTB_PROP_MBEDTLS_HEAP_ADDR (cells_of_value 2 heap_addr))
               (tb_fw_node dtb) DTB_PROP_MBEDTLS_HEAP_SIZE (cells_of_value 1 heap_size),
            [Fdt_check_header, Fdt_node_offset_by_compatible (-1) ''arm,tb_fw'',
             Fdtw_write_inplace_cells (tb_fw_node dtb) DTB_PROP_MBEDTLS_HEAP_ADDR 2,
             Fdtw_write_inplace_cells (tb_fw_node dtb) DTB_PROP_MBEDTLS_HEAP_SIZE 1]))"
  by (simp add: arm_set_dtb_mbedtls_heap_info_def init_cases write_result has_slot_setprop
      prop_names_differ)

lemma get_result:
  "arm_get_dtb_mbedtls_heap_info dtb heap_addr heap_size r =
    (if fdt_check_header dtb \<noteq> 0 then (-1, heap_addr, heap_size, [Fdt_check_header])
     else if tb_fw_node dtb < 0
     then (-1, heap_addr, heap_size,
            [Fdt_check_header, Fdt_node_offset_by_compatible (-1) ''arm,tb_fw''])
     else if \<not> has_slot dtb (tb_fw_node dtb) DTB_PROP_MBEDTLS_HEAP_ADDR 2
     then (-1, heap_addr, heap_size,
            [Fdt_check_header, Fdt_node_offset_by_compatible (-1) ''arm,tb_fw'',
             Fdtw_read_cells (tb_fw_node dtb) DTB_PROP_MBEDTLS_HEAP_ADDR 2])
     else if \<not> has_slot dtb (tb_fw_node dtb) DTB_PROP_MBEDTLS_HEAP_SIZE 1
     then (-1, store_cells (the (node_prop dtb (tb_fw_node dtb) DTB_PROP_MBEDTLS_HEAP_ADDR)) heap_addr,
            heap_size,
            [Fdt_check_header, Fdt_node_offset_by_compatible (-1) ''arm,tb_fw'',
             Fdtw_read_cells (tb_fw_node dtb) DTB_PROP_MBEDTLS_HEAP_ADDR 2,
             Fdtw_read_cells (tb_fw_node dtb) DTB_PROP_MBEDTLS_HEAP_SIZE 1])
     else (0, store_cells (the (node_prop dtb (tb_fw_node dtb) DTB_PROP_MBEDTLS_HEAP_ADDR)) heap_addr,
            store_cells (the (node_prop dtb (tb_fw_node dtb) DTB_PROP_MBEDTLS_HEAP_SIZE)) heap_size,
            [Fdt_check_header, Fdt_node_offset_by_compatible (-1) ''arm,tb_fw'',
             Fdtw_read_cells (tb_fw_node dtb) DTB_PROP_MBEDTLS_HEAP_ADDR 2,
             Fdtw_read_cells (tb_fw_node dtb) DTB_PROP_MBEDTLS_HEAP_SIZE 1]))"
  by (simp add: arm_get_dtb_mbedtls_heap_info_def init_cases read_result)

text \<open>
  The writer succeeds exactly on a blob with a valid header, a configuration
  node and both slots; the reader succeeds on the same blobs.
\<close>

lemma set_succeeds_iff:
  "fst (arm_set_dtb_mbedtls_heap_info dtb heap_addr heap_size r) = 0 \<longleftrightarrow>
     fdt_check_header dtb = 0 \<and> 0 \<le> tb_fw_node dtb
     \<and> has_slot dtb (tb_fw_node dtb) DTB_PROP_MBEDTLS_HEAP_ADDR 2
     \<and> has_slot dtb (tb_fw_node dtb) DTB_PROP_MBEDTLS_HEAP_SIZE 1"
  by (simp add: set_result not_less)

lemma get_succeeds_iff:
  "fst (arm_get_dtb_mbedtls_heap_info dtb heap_addr heap_size r) = 0 \<longleftrightarrow>
     fdt_check_header dtb = 0 \<and> 0 \<le> tb_fw_node dtb
     \<and> has_slot dtb (tb_fw_node dtb) DTB_PROP_MBEDTLS_HEAP_ADDR 2
     \<and> has_slot dtb (tb_fw_node dtb) DTB_PROP_MBEDTLS_HEAP_SIZE 1"
  by (simp add: get_result not_less)

text \<open>
  The local \<^verbatim>\<open>dtb_root\<close> of the reader and of the writer is written before it
  is read: the content it starts with does not reach the result.
\<close>

lemma dtb_root_not_observed:
  "arm_get_dtb_mbedtls_heap_info dtb a0 s0 r1 = arm_get_dtb_mbedtls_heap_info dtb a0 s0 r2"
  "arm_set_dtb_mbedtls_heap_info dtb addr sz r1 = arm_set_dtb_mbedtls_heap_info dtb addr sz r2"
  by (simp_all add: get_result set_result)

subsection \<open>The example blobs, evaluated\<close>

lemmas example_defs = example_header_def example_blob_def tb_fw_config_def bad_magic_blob_def
  no_node_blob_def auth_five_blob_def no_size_blob_def no_addr_blob_def

lemmas lib_defs = fdt_check_header_def FDT_MAGIC_def fdt_node_offset_by_compatible_def
  node_prop_def node_setprop_def fdtw_read_cells_def fdtw_write_inplace_cells_def
  cells_of_value_two cells_of_value_one value_of_cells_def store_cells_def
  DTB_PROP_MBEDTLS_HEAP_ADDR_def DTB_PROP_MBEDTLS_HEAP_SIZE_def

lemma bad_magic_header: "fdt_check_header bad_magic_blob = -1"
  by (simp add: example_defs lib_defs)

lemma no_node_header: "fdt_check_header no_node_blob = 0"
  by (simp add: example_defs lib_defs)

lemma no_node_search: "tb_fw_node no_node_blob = -1"
  by (simp add: example_defs lib_defs)

lemma tb_fw_config_init:
  "arm_dyn_tb_fw_cfg_init tb_fw_config 0 =
     (0, 1, [Fdt_check_header, Fdt_node_offset_by_compatible (-1) ''arm,tb_fw''])"
  by (simp add: arm_dyn_tb_fw_cfg_init_def example_defs lib_defs)

lemma auth_five_init:
  "arm_dyn_tb_fw_cfg_init auth_five_blob 0 =
     (0, 1, [Fdt_check_header, Fdt_node_offset_by_compatible (-1) ''arm,tb_fw''])"
  by (simp add: arm_dyn_tb_fw_cfg_init_def example_defs lib_defs)

lemma no_size_init:
  "arm_dyn_tb_fw_cfg_init no_size_blob 0 =
     (0, 1, [Fdt_check_header, Fdt_node_offset_by_compatible (-1) ''arm,tb_fw''])"
  by (simp add: arm_dyn_tb_fw_cfg_init_def example_defs lib_defs)

section \<open>The claims\<close>

text \<open>
  The source has one failure status, \<open>-1\<close>, for every error. The names
  \<open>StructuralError\<close>, \<open>NotFoundError\<close>, \<open>DomainError\<close> and \<open>WriteError\<close> of the
  specification are read as that status on the path that the name describes.
\<close>

subsection \<open>C1: the two failures of the validator\<close>

text \<open>
  Claim C1, as amended. \<^verbatim>\<open>arm_dyn_tb_fw_cfg_init\<close> fails with status \<open>-1\<close> when the
  header is malformed, and with the same status \<open>-1\<close> when the header is valid
  and no \<^verbatim>\<open>"arm,tb_fw"\<close> node exists; the returned status is the same for the two
  failures. On a malformed header \<^verbatim>\<open>*node\<close> keeps its content and only the header
  check was called; on a header-valid blob without the node the search was made
  and \<^verbatim>\<open>*node\<close> holds its negative result.
\<close>

theorem validator_failures_share_status:
  "(fdt_check_header dtb \<noteq> 0 \<longrightarrow>
      arm_dyn_tb_fw_cfg_init dtb node = (-1, node, [Fdt_check_header]))
   \<and> (fdt_check_header dtb = 0 \<and> tb_fw_node dtb < 0 \<longrightarrow>
      arm_dyn_tb_fw_cfg_init dtb node =
        (-1, tb_fw_node dtb, [Fdt_check_header, Fdt_node_offset_by_compatible (-1) ''arm,tb_fw'']))
   \<and> (fdt_check_header dtb \<noteq> 0 \<and> fdt_check_header dtb2 = 0 \<and> tb_fw_node dtb2 < 0 \<longrightarrow>
      fst (arm_dyn_tb_fw_cfg_init dtb node) = fst (arm_dyn_tb_fw_cfg_init dtb2 node2))"
  by (simp add: init_cases)

text \<open>
  Witness for C1 as amended: the blob with the wrong magic and the valid blob
  without the node.
\<close>

theorem validator_failures_share_status_witness:
  "fdt_check_header bad_magic_blob \<noteq> 0
   \<and> fdt_check_header no_node_blob = 0 \<and> tb_fw_node no_node_blob < 0
   \<and> arm_dyn_tb_fw_cfg_init bad_magic_blob 7 = (-1, 7, [Fdt_check_header])
   \<and> arm_dyn_tb_fw_cfg_init no_node_blob 7 =
        (-1, -1, [Fdt_check_header, Fdt_node_offset_by_compatible (-1) ''arm,tb_fw''])
   \<and> fst (arm_dyn_tb_fw_cfg_init bad_magic_blob 7) = fst (arm_dyn_tb_fw_cfg_init no_node_blob 7)"
  using validator_failures_share_status [of bad_magic_blob 7 no_node_blob 7]
    validator_failures_share_status [of no_node_blob 7 no_node_blob 7]
  by (simp add: bad_magic_header no_node_header no_node_search)

text \<open>
  Counterexample to C1 as stated: a blob with a malformed header and a
  header-valid blob without the node, for which the validator returns one and
  the same status, so that the status alone does not tell the caller which of
  the two failures happened.
\<close>

theorem validator_status_does_not_distinguish:
  "fdt_check_header bad_magic_blob \<noteq> 0
   \<and> fdt_check_header no_node_blob = 0 \<and> tb_fw_node no_node_blob < 0
   \<and> fst (arm_dyn_tb_fw_cfg_init bad_magic_blob 0) = -1
   \<and> fst (arm_dyn_tb_fw_cfg_init no_node_blob 0) = -1"
  by (simp add: init_cases bad_magic_header no_node_header no_node_search)

subsection \<open>C2: the domain of \<^verbatim>\<open>disable_auth\<close>\<close>

text \<open>
  Claim C2. For every blob, every handle that the validator yields for it and
  every 32-bit value \<open>v\<close> in the one cell of \<^verbatim>\<open>disable_auth\<close>:
  \<^verbatim>\<open>arm_dyn_get_disable_auth\<close> returns, with assertions on or off; when \<open>v\<close> is 0 or
  1 the status is 0 and the output is \<open>v\<close>; otherwise the status is \<open>-1\<close>, and the
  output holds \<open>v\<close> itself, not a value coerced to 0 or 1.
\<close>

theorem disable_auth_boolean_domain:
  assumes "arm_dyn_tb_fw_cfg_init dtb n0 = (0, node, tr)"
    and "node_prop dtb node ''disable_auth'' = Some [v]"
  shows "arm_dyn_get_disable_auth assertions dtb node d =
     Return (if v = 0 \<or> v = 1 then 0 else -1, v,
       (if assertions then [Fdt_check_header, Fdt_node_offset_by_compatible (-1) ''arm,tb_fw'']
        else []) @ [Fdtw_read_cells node ''disable_auth'' 1])"
  using init_ok [OF assms(1)] read_one [OF assms(2)]
  by (simp add: arm_dyn_get_disable_auth_def)

text \<open>Witness for C2: \<^verbatim>\<open>disable_auth = 1\<close> is returned, \<^verbatim>\<open>disable_auth = 5\<close> is refused.\<close>

theorem disable_auth_boolean_domain_witness:
  "arm_dyn_tb_fw_cfg_init tb_fw_config 0 =
     (0, 1, [Fdt_check_header, Fdt_node_offset_by_compatible (-1) ''arm,tb_fw''])
   \<and> node_prop tb_fw_config 1 ''disable_auth'' = Some [1]
   \<and> arm_dyn_get_disable_auth True tb_fw_config 1 9 =
       Return (0, 1, [Fdt_check_header, Fdt_node_offset_by_compatible (-1) ''arm,tb_fw'',
                      Fdtw_read_cells 1 ''disable_auth'' 1])
   \<and> arm_dyn_tb_fw_cfg_init auth_five_blob 0 =
     (0, 1, [Fdt_check_header, Fdt_node_offset_by_compatible (-1) ''arm,tb_fw''])
   \<and> node_prop auth_five_blob 1 ''disable_auth'' = Some [5]
   \<and> arm_dyn_get_disable_auth False auth_five_blob 1 9 =
       Return (-1, 5, [Fdtw_read_cells 1 ''disable_auth'' 1])"
proof -
  have p1: "node_prop tb_fw_config 1 ''disable_auth'' = Some [1]"
    by (simp add: example_defs lib_defs)
  have p5: "node_prop auth_five_blob 1 ''disable_auth'' = Some [5]"
    by (simp add: example_defs lib_defs)
  show ?thesis
    using disable_auth_boolean_domain [OF tb_fw_config_init p1, of True 9]
      disable_auth_boolean_domain [OF auth_five_init p5, of False 9]
    by (simp add: tb_fw_config_init auth_five_init p1 p5)
qed

subsection \<open>C3: writing the heap descriptor and reading it back\<close>





subsection \<open>C4: the address write is kept when the size write fails\<close>

text \<open>
  Claim C4. For every blob on which the validator succeeds, the write of the
  address succeeds and the write of the size fails:
  \<^verbatim>\<open>arm_set_dtb_mbedtls_heap_info\<close> returns the error status and leaves the blob as
  the address write left it. In that blob the address property holds the cells
  of the new address and the size property is what it was before the call;
  nothing restores the old address.
\<close>

theorem heap_info_partial_write_kept:
  assumes "arm_dyn_tb_fw_cfg_init dtb r0 = (0, node, tr)"
    and "fdtw_write_inplace_cells dtb node DTB_PROP_MBEDTLS_HEAP_ADDR 2 addr = (0, dtb1)"
    and "fst (fdtw_write_inplace_cells dtb1 node DTB_PROP_MBEDTLS_HEAP_SIZE 1 sz) < 0"
  shows "arm_set_dtb_mbedtls_heap_info dtb addr sz r0 =
      (-1, dtb1, [Fdt_check_header, Fdt_node_offset_by_compatible (-1) ''arm,tb_fw'',
             Fdtw_write_inplace_cells node DTB_PROP_MBEDTLS_HEAP_ADDR 2,
             Fdtw_write_inplace_cells node DTB_PROP_MBEDTLS_HEAP_SIZE 1])
     \<and> node_prop dtb1 node DTB_PROP_MBEDTLS_HEAP_ADDR = Some (cells_of_value 2 addr)
     \<and> node_prop dtb1 node DTB_PROP_MBEDTLS_HEAP_SIZE = node_prop dtb node DTB_PROP_MBEDTLS_HEAP_SIZE"
proof -
  from init_ok [OF assms(1)] have hdr: "fdt_check_header dtb = 0"
    and node: "node = tb_fw_node dtb" and n: "\<not> tb_fw_node dtb < 0" by simp_all
  from assms(2) have sa: "has_slot dtb node DTB_PROP_MBEDTLS_HEAP_ADDR 2"
    and dtb1: "dtb1 = node_setprop dtb node DTB_PROP_MBEDTLS_HEAP_ADDR (cells_of_value 2 addr)"
    by (simp_all add: write_result split: if_splits)
  from assms(3) have "\<not> has_slot dtb1 node DTB_PROP_MBEDTLS_HEAP_SIZE 1"
    by (simp add: write_result split: if_splits)
  then have ss: "\<not> has_slot dtb node DTB_PROP_MBEDTLS_HEAP_SIZE 1"
    using prop_names_differ by (simp add: dtb1 has_slot_setprop)
  have "arm_set_dtb_mbedtls_heap_info dtb addr sz r0 =
      (-1, dtb1, [Fdt_check_header, Fdt_node_offset_by_compatible (-1) ''arm,tb_fw'',
             Fdtw_write_inplace_cells node DTB_PROP_MBEDTLS_HEAP_ADDR 2,
             Fdtw_write_inplace_cells node DTB_PROP_MBEDTLS_HEAP_SIZE 1])"
    using hdr n sa ss unfolding node dtb1 by (simp add: set_result)
  moreover have "node_prop dtb1 node DTB_PROP_MBEDTLS_HEAP_ADDR = Some (cells_of_value 2 addr)"
    using has_slot_Some [OF sa] by (simp add: dtb1 node_prop_setprop)
  moreover have "node_prop dtb1 node DTB_PROP_MBEDTLS_HEAP_SIZE
      = node_prop dtb node DTB_PROP_MBEDTLS_HEAP_SIZE"
    using prop_names_differ by (simp add: dtb1 node_prop_setprop)
  ultimately show ?thesis by simp
qed

text \<open>
  Witness for C4: a configuration that reserves the address and not the size.
  The writer fails and the blob keeps address \<open>0x80000000\<close>.
\<close>

theorem heap_info_partial_write_kept_witness:
  "arm_dyn_tb_fw_cfg_init no_size_blob 0 =
     (0, 1, [Fdt_check_header, Fdt_node_offset_by_compatible (-1) ''arm,tb_fw''])
   \<and> fdtw_write_inplace_cells no_size_blob 1 DTB_PROP_MBEDTLS_HEAP_ADDR 2 (0x80000000 :: 64 word) =
     (0, example_blob [(''disable_auth'', [0]), (''mbedtls_heap_addr'', [0, 0x80000000])])
   \<and> fst (fdtw_write_inplace_cells
        (example_blob [(''disable_auth'', [0]), (''mbedtls_heap_addr'', [0, 0x80000000])])
        1 DTB_PROP_MBEDTLS_HEAP_SIZE 1 (0x10000 :: 64 word)) < 0
   \<and> arm_set_dtb_mbedtls_heap_info no_size_blob 0x80000000 0x10000 0 =
     (-1, example_blob [(''disable_auth'', [0]), (''mbedtls_heap_addr'', [0, 0x80000000])],
      [Fdt_check_header, Fdt_node_offset_by_compatible (-1) ''arm,tb_fw'',
       Fdtw_write_inplace_cells 1 ''mbedtls_heap_addr'' 2,
       Fdtw_write_inplace_cells 1 ''mbedtls_heap_size'' 1])
   \<and> node_prop (example_blob [(''disable_auth'', [0]), (''mbedtls_heap_addr'', [0, 0x80000000])])
        1 ''mbedtls_heap_addr'' = Some [0, 0x80000000]
   \<and> node_prop (example_blob [(''disable_auth'', [0]), (''mbedtls_heap_addr'', [0, 0x80000000])])
        1 ''mbedtls_heap_size'' = None"
proof -
  have w1: "fdtw_write_inplace_cells no_size_blob 1 DTB_PROP_MBEDTLS_HEAP_ADDR 2 (0x80000000 :: 64 word) =
     (0, example_blob [(''disable_auth'', [0]), (''mbedtls_heap_addr'', [0, 0x80000000])])"
    by (simp add: example_defs lib_defs)
  have w2: "fst (fdtw_write_inplace_cells
        (example_blob [(''disable_auth'', [0]), (''mbedtls_heap_addr'', [0, 0x80000000])])
        1 DTB_PROP_MBEDTLS_HEAP_SIZE 1 (0x10000 :: 64 word)) < 0"
    by (simp add: example_defs lib_defs)
  have c: "cells_of_value 2 (0x80000000 :: 64 word) = [0, 0x80000000]"
    by (simp add: cells_of_value_two)
  have p: "node_prop no_size_blob 1 ''mbedtls_heap_size'' = None"
    by (simp add: example_defs lib_defs)
  show ?thesis
    using heap_info_partial_write_kept [OF no_size_init w1 w2] w1 w2
    by (simp add: no_size_init c p DTB_PROP_MBEDTLS_HEAP_ADDR_def DTB_PROP_MBEDTLS_HEAP_SIZE_def)
qed

subsection \<open>C5: the reader is all or nothing\<close>

text \<open>
  Claim C5. For every blob in which \<^verbatim>\<open>mbedtls_heap_addr\<close> or \<^verbatim>\<open>mbedtls_heap_size\<close>
  is missing from the configuration node or has fewer cells than required (2 and
  1), \<^verbatim>\<open>arm_get_dtb_mbedtls_heap_info\<close> returns the error status \<open>-1\<close>. Whenever
  it does not return \<open>-1\<close> it returns 0, both properties are there with 2 and 1
  cells, and both outputs have been written from them, the address object as a
  whole and the low half of the size object: success is never reported with
  one output only.
\<close>

theorem heap_info_read_all_or_nothing:
  "(missing_or_short dtb (tb_fw_node dtb) DTB_PROP_MBEDTLS_HEAP_ADDR 2
      \<or> missing_or_short dtb (tb_fw_node dtb) DTB_PROP_MBEDTLS_HEAP_SIZE 1
      \<longrightarrow> fst (arm_get_dtb_mbedtls_heap_info dtb a0 s0 r0) = -1)
   \<and> (fst (arm_get_dtb_mbedtls_heap_info dtb a0 s0 r0) \<noteq> -1 \<longrightarrow>
        (\<exists>hi lo sz. node_prop dtb (tb_fw_node dtb) DTB_PROP_MBEDTLS_HEAP_ADDR = Some [hi, lo]
           \<and> node_prop dtb (tb_fw_node dtb) DTB_PROP_MBEDTLS_HEAP_SIZE = Some [sz]
           \<and> arm_get_dtb_mbedtls_heap_info dtb a0 s0 r0 =
               (0, value_of_cells [hi, lo], push_bit 32 (drop_bit 32 s0) OR ucast sz,
                [Fdt_check_header, Fdt_node_offset_by_compatible (-1) ''arm,tb_fw'',
                 Fdtw_read_cells (tb_fw_node dtb) DTB_PROP_MBEDTLS_HEAP_ADDR 2,
                 Fdtw_read_cells (tb_fw_node dtb) DTB_PROP_MBEDTLS_HEAP_SIZE 1])))"
proof (intro conjI impI)
  assume "missing_or_short dtb (tb_fw_node dtb) DTB_PROP_MBEDTLS_HEAP_ADDR 2
      \<or> missing_or_short dtb (tb_fw_node dtb) DTB_PROP_MBEDTLS_HEAP_SIZE 1"
  then have "\<not> has_slot dtb (tb_fw_node dtb) DTB_PROP_MBEDTLS_HEAP_ADDR 2
      \<or> \<not> has_slot dtb (tb_fw_node dtb) DTB_PROP_MBEDTLS_HEAP_SIZE 1"
    using has_slot_not_missing by blast
  then show "fst (arm_get_dtb_mbedtls_heap_info dtb a0 s0 r0) = -1"
    by (auto simp: get_result)
next
  assume ok: "fst (arm_get_dtb_mbedtls_heap_info dtb a0 s0 r0) \<noteq> -1"
  then have sa: "has_slot dtb (tb_fw_node dtb) DTB_PROP_MBEDTLS_HEAP_ADDR 2"
    and ss: "has_slot dtb (tb_fw_node dtb) DTB_PROP_MBEDTLS_HEAP_SIZE 1"
    and hdr: "fdt_check_header dtb = 0" and n: "\<not> tb_fw_node dtb < 0"
    by (auto simp: get_result split: if_splits)
  from sa obtain hi lo
    where a: "node_prop dtb (tb_fw_node dtb) DTB_PROP_MBEDTLS_HEAP_ADDR = Some [hi, lo]"
    by (auto simp: has_slot_def length_Suc_conv numeral_2_eq_2 split: option.splits)
  from ss obtain sz
    where s: "node_prop dtb (tb_fw_node dtb) DTB_PROP_MBEDTLS_HEAP_SIZE = Some [sz]"
    by (auto simp: has_slot_def length_Suc_conv split: option.splits)
  show "\<exists>hi lo sz. node_prop dtb (tb_fw_node dtb) DTB_PROP_MBEDTLS_HEAP_ADDR = Some [hi, lo]
           \<and> node_prop dtb (tb_fw_node dtb) DTB_PROP_MBEDTLS_HEAP_SIZE = Some [sz]
           \<and> arm_get_dtb_mbedtls_heap_info dtb a0 s0 r0 =
               (0, value_of_cells [hi, lo], push_bit 32 (drop_bit 32 s0) OR ucast sz,
                [Fdt_check_header, Fdt_node_offset_by_compatible (-1) ''arm,tb_fw'',
                 Fdtw_read_cells (tb_fw_node dtb) DTB_PROP_MBEDTLS_HEAP_ADDR 2,
                 Fdtw_read_cells (tb_fw_node dtb) DTB_PROP_MBEDTLS_HEAP_SIZE 1])"
    using a s sa ss hdr n by (simp add: get_result store_cells_uint64 store_cells_low_half)
qed

text \<open>
  Witness for C5: the reader fails on the configuration without
  \<^verbatim>\<open>mbedtls_heap_addr\<close> and on the one without \<^verbatim>\<open>mbedtls_heap_size\<close>, and it
  succeeds on the complete configuration, which has both.
\<close>

theorem heap_info_read_all_or_nothing_witness:
  "missing_or_short no_addr_blob (tb_fw_node no_addr_blob) DTB_PROP_MBEDTLS_HEAP_ADDR 2
   \<and> fst (arm_get_dtb_mbedtls_heap_info no_addr_blob 7 9 0) = -1
   \<and> missing_or_short no_size_blob (tb_fw_node no_size_blob) DTB_PROP_MBEDTLS_HEAP_SIZE 1
   \<and> fst (arm_get_dtb_mbedtls_heap_info no_size_blob 7 9 0) = -1
   \<and> fst (arm_get_dtb_mbedtls_heap_info tb_fw_config 7 9 0) \<noteq> -1
   \<and> arm_get_dtb_mbedtls_heap_info tb_fw_config 7 9 0 =
       (0, 0, 0, [Fdt_check_header, Fdt_node_offset_by_compatible (-1) ''arm,tb_fw'',
                  Fdtw_read_cells 1 ''mbedtls_heap_addr'' 2,
                  Fdtw_read_cells 1 ''mbedtls_heap_size'' 1])"
proof -
  have m1: "missing_or_short no_addr_blob (tb_fw_node no_addr_blob) DTB_PROP_MBEDTLS_HEAP_ADDR 2"
    by (simp add: missing_or_short_def example_defs lib_defs)
  have m2: "missing_or_short no_size_blob (tb_fw_node no_size_blob) DTB_PROP_MBEDTLS_HEAP_SIZE 1"
    by (simp add: missing_or_short_def example_defs lib_defs)
  have ok: "arm_get_dtb_mbedtls_heap_info tb_fw_config 7 9 0 =
       (0, 0, 0, [Fdt_check_header, Fdt_node_offset_by_compatible (-1) ''arm,tb_fw'',
                  Fdtw_read_cells 1 ''mbedtls_heap_addr'' 2,
                  Fdtw_read_cells 1 ''mbedtls_heap_size'' 1])"
    by (simp add: arm_get_dtb_mbedtls_heap_info_def arm_dyn_tb_fw_cfg_init_def example_defs lib_defs)
  show ?thesis
    using heap_info_read_all_or_nothing [of no_addr_blob 7 9 0]
      heap_info_read_all_or_nothing [of no_size_blob 7 9 0]
      heap_info_read_all_or_nothing [of tb_fw_config 7 9 0] m1 m2 ok
    by simp
qed

subsection \<open>C6: a corrupted header stops the validator before the search\<close>

text \<open>
  Claim C6. For every blob whose header does not validate,
  \<^verbatim>\<open>arm_dyn_tb_fw_cfg_init\<close> returns the error status, leaves \<^verbatim>\<open>*node\<close> as it
  was, and has called the header check only: no call of
  \<^verbatim>\<open>fdt_node_offset_by_compatible\<close> is among the calls it made.
\<close>

theorem validator_bad_header_skips_search:
  assumes "fdt_check_header dtb \<noteq> 0"
  shows "arm_dyn_tb_fw_cfg_init dtb node = (-1, node, [Fdt_check_header])
     \<and> (\<forall>s t. Fdt_node_offset_by_compatible s t
           \<notin> set (snd (snd (arm_dyn_tb_fw_cfg_init dtb node))))"
  using assms by (simp add: init_cases)

text \<open>Witness for C6: the blob with the wrong magic.\<close>

theorem validator_bad_header_skips_search_witness:
  "fdt_check_header bad_magic_blob \<noteq> 0
   \<and> arm_dyn_tb_fw_cfg_init bad_magic_blob 7 = (-1, 7, [Fdt_check_header])
   \<and> Fdt_node_offset_by_compatible (-1) ''arm,tb_fw''
        \<notin> set (snd (snd (arm_dyn_tb_fw_cfg_init bad_magic_blob 7)))"
proof -
  have h: "fdt_check_header bad_magic_blob \<noteq> 0"
    by (simp add: bad_magic_header)
  show ?thesis
    using validator_bad_header_skips_search [OF h, of 7] h by simp
qed

subsection \<open>C7: writing to a slot that the blob does not reserve\<close>

text \<open>
  Claim C7. For every blob whose configuration node lacks the slot of
  \<^verbatim>\<open>mbedtls_heap_addr\<close> or of \<^verbatim>\<open>mbedtls_heap_size\<close>,
  \<^verbatim>\<open>arm_set_dtb_mbedtls_heap_info\<close> fails with the error status and leaves a blob of
  the same layout: the same header with the same total size, the same nodes,
  the same property names and cell counts, nothing added. Every property other
  than \<^verbatim>\<open>mbedtls_heap_addr\<close> of the configuration node keeps its cells, and when
  it is the address slot that is missing the blob is unchanged altogether.
\<close>

theorem heap_info_write_absent_slot:
  assumes "node_prop dtb (tb_fw_node dtb) DTB_PROP_MBEDTLS_HEAP_ADDR = None
           \<or> node_prop dtb (tb_fw_node dtb) DTB_PROP_MBEDTLS_HEAP_SIZE = None"
    and "arm_set_dtb_mbedtls_heap_info dtb addr sz r0 = (status, dtb', called)"
  shows "status = -1
     \<and> blob_layout dtb' = blob_layout dtb
     \<and> (\<forall>m k. m \<noteq> tb_fw_node dtb \<or> k \<noteq> DTB_PROP_MBEDTLS_HEAP_ADDR \<longrightarrow>
            node_prop dtb' m k = node_prop dtb m k)
     \<and> (node_prop dtb (tb_fw_node dtb) DTB_PROP_MBEDTLS_HEAP_ADDR = None \<longrightarrow> dtb' = dtb)"
proof -
  from assms(1) have no: "\<not> has_slot dtb (tb_fw_node dtb) DTB_PROP_MBEDTLS_HEAP_ADDR 2
           \<or> \<not> has_slot dtb (tb_fw_node dtb) DTB_PROP_MBEDTLS_HEAP_SIZE 1"
    using absent_no_slot by blast
  have lay: "blob_layout (node_setprop dtb (tb_fw_node dtb) DTB_PROP_MBEDTLS_HEAP_ADDR (cells_of_value 2 addr))
     = blob_layout dtb" if "has_slot dtb (tb_fw_node dtb) DTB_PROP_MBEDTLS_HEAP_ADDR 2"
    using that
    by (auto simp: has_slot_def layout_node_setprop length_cells_of_value split: option.splits)
  have absent: "\<not> has_slot dtb (tb_fw_node dtb) DTB_PROP_MBEDTLS_HEAP_ADDR 2"
    if "node_prop dtb (tb_fw_node dtb) DTB_PROP_MBEDTLS_HEAP_ADDR = None"
    using that by (rule absent_no_slot)
  show ?thesis
    using assms(2) no lay absent
    by (auto simp: set_result node_prop_setprop split: if_splits)
qed

text \<open>
  Witness for C7: without the size slot the writer fails and the blob keeps its
  layout and its \<^verbatim>\<open>disable_auth\<close>; without the address slot the blob is
  unchanged.
\<close>

theorem heap_info_write_absent_slot_witness:
  "node_prop no_size_blob (tb_fw_node no_size_blob) DTB_PROP_MBEDTLS_HEAP_SIZE = None
   \<and> arm_set_dtb_mbedtls_heap_info no_size_blob 0x80000000 0x10000 0 =
     (-1, example_blob [(''disable_auth'', [0]), (''mbedtls_heap_addr'', [0, 0x80000000])],
      [Fdt_check_header, Fdt_node_offset_by_compatible (-1) ''arm,tb_fw'',
       Fdtw_write_inplace_cells 1 ''mbedtls_heap_addr'' 2,
       Fdtw_write_inplace_cells 1 ''mbedtls_heap_size'' 1])
   \<and> blob_layout (example_blob [(''disable_auth'', [0]), (''mbedtls_heap_addr'', [0, 0x80000000])])
       = blob_layout no_size_blob
   \<and> node_prop (example_blob [(''disable_auth'', [0]), (''mbedtls_heap_addr'', [0, 0x80000000])])
        1 ''disable_auth'' = node_prop no_size_blob 1 ''disable_auth''
   \<and> node_prop no_addr_blob (tb_fw_node no_addr_blob) DTB_PROP_MBEDTLS_HEAP_ADDR = None
   \<and> arm_set_dtb_mbedtls_heap_info no_addr_blob 0x80000000 0x10000 0 =
     (-1, no_addr_blob,
      [Fdt_check_header, Fdt_node_offset_by_compatible (-1) ''arm,tb_fw'',
       Fdtw_write_inplace_cells 1 ''mbedtls_heap_addr'' 2])"
proof -
  have m1: "node_prop no_size_blob (tb_fw_node no_size_blob) DTB_PROP_MBEDTLS_HEAP_SIZE = None"
    by (simp add: example_defs lib_defs)
  have w1: "arm_set_dtb_mbedtls_heap_info no_size_blob 0x80000000 0x10000 0 =
     (-1, example_blob [(''disable_auth'', [0]), (''mbedtls_heap_addr'', [0, 0x80000000])],
      [Fdt_check_header, Fdt_node_offset_by_compatible (-1) ''arm,tb_fw'',
       Fdtw_write_inplace_cells 1 ''mbedtls_heap_addr'' 2,
       Fdtw_write_inplace_cells 1 ''mbedtls_heap_size'' 1])"
    by (simp add: arm_set_dtb_mbedtls_heap_info_def arm_dyn_tb_fw_cfg_init_def example_defs lib_defs)
  have m2: "node_prop no_addr_blob (tb_fw_node no_addr_blob) DTB_PROP_MBEDTLS_HEAP_ADDR = None"
    by (simp add: example_defs lib_defs)
  have w2: "arm_set_dtb_mbedtls_heap_info no_addr_blob 0x80000000 0x10000 0 =
     (-1, no_addr_blob,
      [Fdt_check_header, Fdt_node_offset_by_compatible (-1) ''arm,tb_fw'',
       Fdtw_write_inplace_cells 1 ''mbedtls_heap_addr'' 2])"
    by (simp add: arm_set_dtb_mbedtls_heap_info_def arm_dyn_tb_fw_cfg_init_def example_defs lib_defs)
  have n: "tb_fw_node no_size_blob = 1"
    by (simp add: example_defs lib_defs)
  from heap_info_write_absent_slot [OF disjI2 [OF m1] w1]
  have "blob_layout (example_blob [(''disable_auth'', [0]), (''mbedtls_heap_addr'', [0, 0x80000000])])
       = blob_layout no_size_blob"
    and "node_prop (example_blob [(''disable_auth'', [0]), (''mbedtls_heap_addr'', [0, 0x80000000])])
        1 ''disable_auth'' = node_prop no_size_blob 1 ''disable_auth''"
    by (simp_all add: n DTB_PROP_MBEDTLS_HEAP_ADDR_def)
  then show ?thesis
    using m1 w1 m2 w2 by simp
qed

subsection \<open>C8: the handle assertion of the accessor\<close>

text \<open>
  Claim C8. With assertions enabled (debug builds), \<^verbatim>\<open>arm_dyn_get_disable_auth\<close>
  stops at its assertions, instead of returning a status, exactly when the
  header of the blob does not validate or the handle differs from the one the
  search yields on this blob now; so a stale or forged handle stops it. For a
  handle that the validator has just derived from the same blob the assertions
  hold and the accessor returns.
\<close>

theorem disable_auth_handle_assertion:
  "(arm_dyn_get_disable_auth True dtb node d = Panic \<longleftrightarrow>
      fdt_check_header dtb \<noteq> 0 \<or> node \<noteq> tb_fw_node dtb)
   \<and> (arm_dyn_tb_fw_cfg_init dtb n0 = (0, node, tr) \<longrightarrow>
        arm_dyn_get_disable_auth True dtb node d \<noteq> Panic)"
proof -
  have a: "arm_dyn_get_disable_auth True dtb node d = Panic \<longleftrightarrow>
      fdt_check_header dtb \<noteq> 0 \<or> node \<noteq> tb_fw_node dtb"
    by (simp add: arm_dyn_get_disable_auth_def Let_def split: prod.splits)
  show ?thesis using a init_ok by blast
qed

text \<open>
  Witness for C8: on the complete configuration the forged handle 0 stops the
  accessor and the validator's handle 1 does not.
\<close>

theorem disable_auth_handle_assertion_witness:
  "0 \<noteq> tb_fw_node tb_fw_config
   \<and> arm_dyn_get_disable_auth True tb_fw_config 0 9 = Panic
   \<and> arm_dyn_tb_fw_cfg_init tb_fw_config 0 =
       (0, 1, [Fdt_check_header, Fdt_node_offset_by_compatible (-1) ''arm,tb_fw''])
   \<and> arm_dyn_get_disable_auth True tb_fw_config 1 9 \<noteq> Panic"
proof -
  have n: "tb_fw_node tb_fw_config = 1"
    by (simp add: example_defs lib_defs)
  have h: "fdt_check_header tb_fw_config = 0"
    by (simp add: example_defs lib_defs)
  show ?thesis
    using h disable_auth_handle_assertion [of tb_fw_config 0 9 0 "[]"]
      disable_auth_handle_assertion [of tb_fw_config 1 9 0
        "[Fdt_check_header, Fdt_node_offset_by_compatible (-1) ''arm,tb_fw'']"]
    by (simp add: n tb_fw_config_init)
qed

text \<open>With assertions disabled nothing stops the accessor: the handle is used as it is.\<close>

lemma release_build_never_panics: "arm_dyn_get_disable_auth False dtb node d \<noteq> Panic"
  by (simp add: arm_dyn_get_disable_auth_def Let_def split: prod.splits)

subsection \<open>C10: the output after a domain failure\<close>

text \<open>
  Claim C10. When the read of \<^verbatim>\<open>disable_auth\<close> at line 46 succeeds and stores a
  value \<open>v\<close> other than 0 and 1, \<^verbatim>\<open>arm_dyn_get_disable_auth\<close> returns \<open>-1\<close> and the
  caller's output object holds \<open>v\<close>, whatever it held before: the object is
  overwritten with the invalid value before the error is returned.
\<close>

theorem domain_error_overwrites_output:
  assumes "fdtw_read_cells dtb node ''disable_auth'' 1 d = (0, v)"
    and "v \<noteq> 0" and "v \<noteq> 1"
    and "arm_dyn_get_disable_auth assertions dtb node d \<noteq> Panic"
  shows "\<exists>called. arm_dyn_get_disable_auth assertions dtb node d = Return (-1, v, called)"
  using assms by (simp add: arm_dyn_get_disable_auth_def split: if_splits)

text \<open>
  Witness for C10: the cell holds 5 and the caller's object held 9 before the
  call; after the failed call it holds 5.
\<close>

theorem domain_error_overwrites_output_witness:
  "fdtw_read_cells auth_five_blob 1 ''disable_auth'' 1 (9 :: 32 word) = (0, 5)
   \<and> arm_dyn_get_disable_auth True auth_five_blob 1 9 \<noteq> Panic
   \<and> (\<exists>called. arm_dyn_get_disable_auth True auth_five_blob 1 9 = Return (-1, 5, called))"
proof -
  have r: "fdtw_read_cells auth_five_blob 1 ''disable_auth'' 1 (9 :: 32 word) = (0, 5)"
    by (simp add: example_defs lib_defs)
  have np: "arm_dyn_get_disable_auth True auth_five_blob 1 9 \<noteq> Panic"
    by (simp add: arm_dyn_get_disable_auth_def example_defs lib_defs)
  show ?thesis
    using domain_error_overwrites_output [OF r _ _ np] r np by simp
qed

end
